theory Spec2Isabelle
  imports Main "HOL-Library.Sublist"
begin

text \<open>
  The routes of the asset manager (\<open>routes/auth.js\<close>, \<open>routes/assets.js\<close>,
  \<open>routes/admin.js\<close>, with the two middlewares) as functions from a request and the state
  of the world to a response and the state left: the world is the two tables of the
  schema, the bucket of the object store with the commands sent to it, and the files of
  the local disk.
\<close>

section \<open>JavaScript values used by the routes\<close>

text \<open>
  A JavaScript string is modelled as a \<open>string\<close>: one \<open>char\<close> per UTF-16 code unit,
  restricted to the code units below 256. The pictographs that open some of the
  source's response messages lie outside that range and are left out of the message
  literals below; the rest of each literal is the source's.
\<close>

definition js_ws :: "char \<Rightarrow> bool" where
  \<comment> \<open>the white space and line terminators that \<open>String.prototype.trim\<close> strips\<close>
  "js_ws c = (c \<in> set [CHR 0x09, CHR 0x0A, CHR 0x0B, CHR 0x0C, CHR 0x0D, CHR 0x20, CHR 0xA0])"

definition trim :: "string \<Rightarrow> string" where
  "trim s = rev (dropWhile js_ws (rev (dropWhile js_ws s)))"

fun split_from :: "string \<Rightarrow> string \<Rightarrow> string \<Rightarrow> string list" where
  "split_from sep acc [] = [rev acc]"
| "split_from sep acc (c # cs) =
     (if prefix sep (c # cs)
      then rev acc # split_from sep [] (drop (length sep - 1) cs)
      else split_from sep (c # acc) cs)"

definition split :: "string \<Rightarrow> string \<Rightarrow> string list" where
  \<comment> \<open>\<open>s.split(sep)\<close> for a string separator\<close>
  "split sep s = (if sep = [] then map (\<lambda>c. [c]) s else split_from sep [] s)"

definition at_index :: "'a list \<Rightarrow> nat \<Rightarrow> 'a option" where
  \<comment> \<open>\<open>xs[i]\<close>: \<open>undefined\<close> (here \<open>None\<close>) out of range\<close>
  "at_index xs i = (if i < length xs then Some (xs ! i) else None)"

function dec :: "nat \<Rightarrow> string" where
  \<comment> \<open>the decimal digits of a number, as a template literal prints it\<close>
  "dec n = (if n < 10 then [''0123456789'' ! n] else dec (n div 10) @ [''0123456789'' ! (n mod 10)])"
  by pat_completeness auto
termination
  by (relation "measure (\<lambda>n. n)") auto

declare dec.simps [simp del]

definition tmpl :: "string option \<Rightarrow> string" where
  \<comment> \<open>a value of \<open>process.env\<close> inside a template literal\<close>
  "tmpl v = (case v of None \<Rightarrow> ''undefined'' | Some s \<Rightarrow> s)"

section \<open>JSON.parse\<close>

text \<open>
  A string inside a JSON value is the list of its UTF-16 code units, since a
  \<open>\u\<close> escape can denote any of them. A number keeps its literal. An object keeps its
  members as written; a lookup takes the last binding of a key, the one
  \<open>JSON.parse\<close> keeps.
\<close>

type_synonym jstr = "nat list"

definition units :: "string \<Rightarrow> jstr" where
  "units s = map of_char s"

datatype json =
    JNull
  | JBool bool
  | JNumber string
  | JString jstr
  | JArray "json list"
  | JObject "(jstr \<times> json) list"

definition obj_get :: "(jstr \<times> json) list \<Rightarrow> jstr \<Rightarrow> json option" where
  "obj_get ms k = map_of (rev ms) k"

datatype token = TLBracket | TRBracket | TLBrace | TRBrace | TComma | TColon | TValue json

datatype num_state = NMinus | NZero | NInt | NDot | NFrac | NExp | NExpSign | NExpDigits

datatype lex_state =
    LIdle
  | LString jstr
  | LEscape jstr
  | LUnicode jstr "nat list"
  | LNumber num_state string
  | LWord string json

definition is_digit :: "char \<Rightarrow> bool" where
  "is_digit c = (48 \<le> (of_char c :: nat) \<and> (of_char c :: nat) \<le> 57)"

definition hex_val :: "char \<Rightarrow> nat option" where
  "hex_val c =
     (let n = (of_char c :: nat)
      in if 48 \<le> n \<and> n \<le> 57 then Some (n - 48)
         else if 97 \<le> n \<and> n \<le> 102 then Some (n - 87)
         else if 65 \<le> n \<and> n \<le> 70 then Some (n - 55)
         else None)"

definition num_next :: "num_state \<Rightarrow> char \<Rightarrow> num_state option" where
  \<comment> \<open>\<open>-? (0 | [1-9][0-9]*) (. [0-9]+)? ([eE] [+-]? [0-9]+)?\<close>\<close>
  "num_next ns c =
     (case ns of
        NMinus \<Rightarrow> if c = CHR ''0'' then Some NZero else if is_digit c then Some NInt else None
      | NZero \<Rightarrow> if c = CHR ''.'' then Some NDot
                else if c = CHR ''e'' \<or> c = CHR ''E'' then Some NExp else None
      | NInt \<Rightarrow> if is_digit c then Some NInt else if c = CHR ''.'' then Some NDot
               else if c = CHR ''e'' \<or> c = CHR ''E'' then Some NExp else None
      | NDot \<Rightarrow> if is_digit c then Some NFrac else None
      | NFrac \<Rightarrow> if is_digit c then Some NFrac
                else if c = CHR ''e'' \<or> c = CHR ''E'' then Some NExp else None
      | NExp \<Rightarrow> if c = CHR ''+'' \<or> c = CHR ''-'' then Some NExpSign
               else if is_digit c then Some NExpDigits else None
      | NExpSign \<Rightarrow> if is_digit c then Some NExpDigits else None
      | NExpDigits \<Rightarrow> if is_digit c then Some NExpDigits else None)"

definition num_final :: "num_state \<Rightarrow> bool" where
  "num_final ns = (ns = NZero \<or> ns = NInt \<or> ns = NFrac \<or> ns = NExpDigits)"

definition idle_step :: "token list \<Rightarrow> char \<Rightarrow> (lex_state \<times> token list) option" where
  \<comment> \<open>between tokens; the tokens read so far are kept newest first\<close>
  "idle_step acc c =
     (if c = CHR 0x20 \<or> c = CHR 0x09 \<or> c = CHR 0x0A \<or> c = CHR 0x0D then Some (LIdle, acc)
      else if c = CHR ''['' then Some (LIdle, TLBracket # acc)
      else if c = CHR '']'' then Some (LIdle, TRBracket # acc)
      else if c = CHR ''{'' then Some (LIdle, TLBrace # acc)
      else if c = CHR ''}'' then Some (LIdle, TRBrace # acc)
      else if c = CHR '','' then Some (LIdle, TComma # acc)
      else if c = CHR '':'' then Some (LIdle, TColon # acc)
      else if c = CHR 0x22 then Some (LString [], acc)
      else if c = CHR ''-'' then Some (LNumber NMinus [c], acc)
      else if c = CHR ''0'' then Some (LNumber NZero [c], acc)
      else if is_digit c then Some (LNumber NInt [c], acc)
      else if c = CHR ''t'' then Some (LWord ''rue'' (JBool True), acc)
      else if c = CHR ''f'' then Some (LWord ''alse'' (JBool False), acc)
      else if c = CHR ''n'' then Some (LWord ''ull'' JNull, acc)
      else None)"

definition escape_unit :: "char \<Rightarrow> nat option" where
  "escape_unit c =
     (if c = CHR 0x22 then Some 34 else if c = CHR 0x5C then Some 92
      else if c = CHR ''/'' then Some 47 else if c = CHR ''b'' then Some 8
      else if c = CHR ''f'' then Some 12 else if c = CHR ''n'' then Some 10
      else if c = CHR ''r'' then Some 13 else if c = CHR ''t'' then Some 9
      else None)"

definition lex_step ::
  "lex_state \<Rightarrow> token list \<Rightarrow> char \<Rightarrow> (lex_state \<times> token list) option" where
  \<comment> \<open>string contents and number literals are collected newest first\<close>
  "lex_step st acc c =
     (case st of
        LIdle \<Rightarrow> idle_step acc c
      | LString s \<Rightarrow>
          if c = CHR 0x22 then Some (LIdle, TValue (JString (rev s)) # acc)
          else if c = CHR 0x5C then Some (LEscape s, acc)
          else if (of_char c :: nat) < 32 then None
          else Some (LString (of_char c # s), acc)
      | LEscape s \<Rightarrow>
          if c = CHR ''u'' then Some (LUnicode s [], acc)
          else (case escape_unit c of
                  Some n \<Rightarrow> Some (LString (n # s), acc)
                | None \<Rightarrow> None)
      | LUnicode s ds \<Rightarrow>
          (case hex_val c of
             None \<Rightarrow> None
           | Some d \<Rightarrow>
               if length ds = 3
               then Some (LString (foldl (\<lambda>n h. 16 * n + h) 0 (ds @ [d]) # s), acc)
               else Some (LUnicode s (ds @ [d]), acc))
      | LNumber ns lx \<Rightarrow>
          (case num_next ns c of
             Some ns' \<Rightarrow> Some (LNumber ns' (c # lx), acc)
           | None \<Rightarrow>
               if num_final ns then idle_step (TValue (JNumber (rev lx)) # acc) c else None)
      | LWord rest v \<Rightarrow>
          (case rest of
             [] \<Rightarrow> None
           | r # rs \<Rightarrow>
               if c \<noteq> r then None
               else if rs = [] then Some (LIdle, TValue v # acc)
               else Some (LWord rs v, acc)))"

fun lex :: "lex_state \<Rightarrow> token list \<Rightarrow> string \<Rightarrow> token list option" where
  "lex st acc [] =
     (case st of
        LIdle \<Rightarrow> Some (rev acc)
      | LNumber ns lx \<Rightarrow>
          if num_final ns then Some (rev (TValue (JNumber (rev lx)) # acc)) else None
      | _ \<Rightarrow> None)"
| "lex st acc (c # cs) =
     (case lex_step st acc c of
        None \<Rightarrow> None
      | Some (st', acc') \<Rightarrow> lex st' acc' cs)"

datatype frame =
    FArray "json list"
  | FObject "(jstr \<times> json) list" "jstr option"

datatype parse_state = PValue | PArrayStart | PObjectStart | PKey | PColon | PAfter | PDone json

definition complete :: "json \<Rightarrow> frame list \<Rightarrow> (parse_state \<times> frame list) option" where
  \<comment> \<open>a value has been read: it is the whole text, an element, or a member's value\<close>
  "complete v stack =
     (case stack of
        [] \<Rightarrow> Some (PDone v, [])
      | FArray es # st \<Rightarrow> Some (PAfter, FArray (v # es) # st)
      | FObject ms (Some k) # st \<Rightarrow> Some (PAfter, FObject ((k, v) # ms) None # st)
      | FObject ms None # st \<Rightarrow> None)"

definition begin_value ::
  "token \<Rightarrow> frame list \<Rightarrow> (parse_state \<times> frame list) option" where
  "begin_value t stack =
     (case t of
        TValue v \<Rightarrow> complete v stack
      | TLBracket \<Rightarrow> Some (PArrayStart, FArray [] # stack)
      | TLBrace \<Rightarrow> Some (PObjectStart, FObject [] None # stack)
      | _ \<Rightarrow> None)"

definition read_key ::
  "token \<Rightarrow> frame list \<Rightarrow> (parse_state \<times> frame list) option" where
  "read_key t stack =
     (case (t, stack) of
        (TValue (JString k), FObject ms None # st) \<Rightarrow> Some (PColon, FObject ms (Some k) # st)
      | _ \<Rightarrow> None)"

definition parse_step ::
  "parse_state \<Rightarrow> frame list \<Rightarrow> token \<Rightarrow> (parse_state \<times> frame list) option" where
  "parse_step ps stack t =
     (case ps of
        PValue \<Rightarrow> begin_value t stack
      | PArrayStart \<Rightarrow>
          (case (t, stack) of
             (TRBracket, FArray es # st) \<Rightarrow> complete (JArray (rev es)) st
           | _ \<Rightarrow> begin_value t stack)
      | PObjectStart \<Rightarrow>
          (case (t, stack) of
             (TRBrace, FObject ms None # st) \<Rightarrow> complete (JObject (rev ms)) st
           | _ \<Rightarrow> read_key t stack)
      | PKey \<Rightarrow> read_key t stack
      | PColon \<Rightarrow> (case t of TColon \<Rightarrow> Some (PValue, stack) | _ \<Rightarrow> None)
      | PAfter \<Rightarrow>
          (case (t, stack) of
             (TComma, FArray es # st) \<Rightarrow> Some (PValue, stack)
           | (TRBracket, FArray es # st) \<Rightarrow> complete (JArray (rev es)) st
           | (TComma, FObject ms None # st) \<Rightarrow> Some (PKey, stack)
           | (TRBrace, FObject ms None # st) \<Rightarrow> complete (JObject (rev ms)) st
           | _ \<Rightarrow> None)
      | PDone v \<Rightarrow> None)"

fun parse_tokens :: "parse_state \<Rightarrow> frame list \<Rightarrow> token list \<Rightarrow> json option" where
  "parse_tokens ps stack [] = (case ps of PDone v \<Rightarrow> Some v | _ \<Rightarrow> None)"
| "parse_tokens ps stack (t # ts) =
     (case parse_step ps stack t of
        None \<Rightarrow> None
      | Some (ps', stack') \<Rightarrow> parse_tokens ps' stack' ts)"

definition JSON_parse :: "string \<Rightarrow> json option" where
  \<comment> \<open>\<open>JSON.parse(text)\<close>; \<open>None\<close> is the \<open>SyntaxError\<close>\<close>
  "JSON_parse s = (case lex LIdle [] s of None \<Rightarrow> None | Some ts \<Rightarrow> parse_tokens PValue [] ts)"

definition digits_val :: "string \<Rightarrow> nat" where
  "digits_val ds = foldl (\<lambda>n c. 10 * n + (of_char c - 48)) 0 ds"

definition number_is_zero :: "string \<Rightarrow> bool" where
  \<comment> \<open>whether the literal denotes \<open>0\<close> or \<open>-0\<close> as a double: its digits are all zero, or
      its value is at most \<open>2^-1075\<close>, half the least positive double, and rounds to zero\<close>
  "number_is_zero lx =
     (let is_e = (\<lambda>c. c = CHR ''e'' \<or> c = CHR ''E'');
          m = filter (\<lambda>c. c \<noteq> CHR ''-'') (takeWhile (\<lambda>c. \<not> is_e c) lx);
          x = drop 1 (dropWhile (\<lambda>c. \<not> is_e c) lx);
          ip = takeWhile (\<lambda>c. c \<noteq> CHR ''.'') m;
          fp = drop 1 (dropWhile (\<lambda>c. c \<noteq> CHR ''.'') m);
          d = digits_val (ip @ fp);
          ex = (case x of
                  [] \<Rightarrow> 0
                | c # ds \<Rightarrow>
                    if c = CHR ''-'' then - int (digits_val ds)
                    else if c = CHR ''+'' then int (digits_val ds)
                    else int (digits_val x));
          scale = ex - int (length fp)
      in d = 0 \<or> (scale < 0 \<and> d * 2 ^ 1075 \<le> 10 ^ nat (- scale)))"

definition truthy :: "json \<Rightarrow> bool" where
  "truthy v =
     (case v of
        JNull \<Rightarrow> False
      | JBool b \<Rightarrow> b
      | JNumber lx \<Rightarrow> \<not> number_is_zero lx
      | JString s \<Rightarrow> s \<noteq> []
      | JArray _ \<Rightarrow> True
      | JObject _ \<Rightarrow> True)"

section \<open>The ledger, the object store and the local disk\<close>

text \<open>
  The rows follow the \<open>CREATE TABLE\<close> statements. A nullable column is an \<open>option\<close>.
  The \<open>id\<close> of an asset is an \<open>option\<close> too, since an \<open>INSERT\<close> can offer \<open>NULL\<close>
  for it; the primary key refuses such a row (see \<open>pg_insert_asset\<close>). The \<open>tags\<close>
  column is \<open>TEXT\<close> holding \<open>JSON.stringify\<close> of the parsed value and \<open>permissions\<close>
  is a \<open>JSON\<close> column: both are kept as the JSON value they denote.
\<close>

record user_row =
  u_id :: nat
  u_name :: "string option"
  u_email :: string
  u_password :: string
  u_role :: "string option"
  u_created_at :: nat

record asset_row =
  a_id :: "string option"
  a_filename :: string
  a_filepath :: string
  a_uploader_id :: "nat option"
  a_size :: "int option"
  a_mimetype :: "string option"
  a_tags :: "json option"
  a_permissions :: "json option"
  a_created_at :: nat

record s3_object =
  o_content_type :: string
  o_acl :: string

datatype s3_cmd =
    PutObject "string option" string string string
  | DeleteObject "string option" "string option"

record world =
  users :: "user_row list"
  users_id_seq :: nat
  assets :: "asset_row list"
  bucket :: "string \<rightharpoonup> s3_object"
  s3_sent :: "s3_cmd list"
  disk :: "string set"

text \<open>
  What a request cannot decide by itself: whether the database and the object store
  answer, the clock, the process environment and the password hash. The upload
  middleware is a dependency whose release the sources do not fix: releases differ on a
  part of exactly the size limit, so whether such a part is refused is left to the
  environment too.
\<close>

record env =
  db_up :: bool
  s3_ok :: bool
  refuses_at_limit :: bool
  now_staging :: nat
  now :: nat
  aws_s3_bucket :: "string option"
  aws_region :: "string option"
  upload_dir :: string
  bcrypt_hash :: "string \<Rightarrow> string"

section \<open>Responses\<close>

datatype thrown =
    ConnectionError
  | NotNullViolation string
  | UniqueViolation string
  | ForeignKeyViolation string
  | ValueTooLong string
  | InvalidBoolean string
  | S3Failure
  | TypeError string
  | ENOENT string

datatype multer_error =
    FileFilterError string
  | LIMIT_FILE_SIZE

datatype body =
    Message string
  | MessageUser string user_row
  | MessageAsset string asset_row
  | ThrownMessage thrown string
  | VisibilityStats int int

text \<open>
  A response is \<open>res.status(n).json(body)\<close> (\<open>res.json\<close> alone is status 200), or the
  error that the upload middleware hands to \<open>next(err)\<close>; the sources install no error
  handler of their own for it.
\<close>

datatype response =
    Json nat body
  | NextError multer_error

section \<open>middleware/auth.js and middleware/role.js\<close>

record identity =
  id_of :: nat
  role_of :: "string option"

text \<open>
  \<open>jwt.verify\<close> is a capability of the environment: the request carries its outcome.
\<close>

datatype credential = NoToken | BadToken | Token identity

definition authenticateToken :: "credential \<Rightarrow> response + identity" where
  "authenticateToken c =
     (case c of
        NoToken \<Rightarrow> Inl (Json 401 (Message ''Access denied. No token provided.''))
      | BadToken \<Rightarrow> Inl (Json 403 (Message ''Invalid token''))
      | Token u \<Rightarrow> Inr u)"

definition requireRole :: "string list \<Rightarrow> identity \<Rightarrow> response option" where
  \<comment> \<open>\<open>None\<close> is \<open>next()\<close>; an empty role string is falsy like a missing one\<close>
  "requireRole allowedRoles u =
     (case role_of u of
        None \<Rightarrow> Some (Json 401 (Message ''No role found''))
      | Some r \<Rightarrow>
          if r = [] then Some (Json 401 (Message ''No role found''))
          else if r \<notin> set allowedRoles
          then Some (Json 403 (Message ''Forbidden: insufficient role''))
          else None)"

section \<open>The object store client\<close>

definition s3_send_delete :: "env \<Rightarrow> string option \<Rightarrow> world \<Rightarrow> thrown option \<times> world" where
  \<comment> \<open>\<open>s3.send(new DeleteObjectCommand({Bucket, Key}))\<close>: the error thrown, if any, and
      the world left; a missing Bucket or Key is refused by the client before anything
      is sent\<close>
  "s3_send_delete e key w =
     (case (aws_s3_bucket e, key) of
        (Some b, Some k) \<Rightarrow>
          (let w1 = w\<lparr>s3_sent := s3_sent w @ [DeleteObject (Some b) (Some k)]\<rparr>
           in if s3_ok e then (None, w1\<lparr>bucket := (bucket w1)(k := None)\<rparr>)
              else (Some S3Failure, w1))
      | _ \<Rightarrow> (Some S3Failure, w))"

definition s3_upload_done ::
  "env \<Rightarrow> string \<Rightarrow> string \<Rightarrow> string \<Rightarrow> world \<Rightarrow> thrown option \<times> world" where
  \<comment> \<open>\<open>new Upload({client, params: {Bucket, Key, Body, ContentType, ACL}}).done()\<close>\<close>
  "s3_upload_done e key contentType acl w =
     (case aws_s3_bucket e of
        None \<Rightarrow> (Some S3Failure, w)
      | Some b \<Rightarrow>
          (let w1 = w\<lparr>s3_sent := s3_sent w @ [PutObject (Some b) key contentType acl]\<rparr>
           in if s3_ok e
              then (None, w1\<lparr>bucket := (bucket w1)
                            (key \<mapsto> \<lparr>o_content_type = contentType, o_acl = acl\<rparr>)\<rparr>)
              else (Some S3Failure, w1)))"

section \<open>The database engine on the two tables\<close>

text \<open>
  An \<open>INSERT\<close> builds the row from the values it is given and from the column
  defaults, then the engine checks the declared lengths, \<open>NOT NULL\<close> (a primary key is
  \<open>NOT NULL\<close>), the unique indexes and the foreign key, in that order, and keeps the row
  only when all hold. The \<open>users.id\<close> column is \<open>SERIAL\<close>: its default draws the next
  value of a sequence, and a refused row does not give the value back. The
  \<open>assets.id\<close> column is \<open>UUID PRIMARY KEY\<close> with no default.
\<close>

definition too_long :: "nat \<Rightarrow> string option \<Rightarrow> bool" where
  \<comment> \<open>\<open>VARCHAR(n)\<close>\<close>
  "too_long n v = (case v of None \<Rightarrow> False | Some s \<Rightarrow> n < length s)"

definition pg_insert_asset :: "env \<Rightarrow> asset_row \<Rightarrow> world \<Rightarrow> thrown + asset_row \<times> world" where
  "pg_insert_asset e row w =
     (if \<not> db_up e then Inl ConnectionError
      else if too_long 255 (Some (a_filename row)) then Inl (ValueTooLong ''filename'')
      else if too_long 100 (a_mimetype row) then Inl (ValueTooLong ''mimetype'')
      else if a_id row = None then Inl (NotNullViolation ''id'')
      else if a_id row \<in> set (map a_id (assets w)) then Inl (UniqueViolation ''assets_pkey'')
      else if (case a_uploader_id row of
                 None \<Rightarrow> False
               | Some uid \<Rightarrow> uid \<notin> set (map u_id (users w)))
      then Inl (ForeignKeyViolation ''assets_uploader_id_fkey'')
      else Inr (row, w\<lparr>assets := assets w @ [row]\<rparr>))"

definition pg_insert_user ::
  "env \<Rightarrow> string option \<Rightarrow> string option \<Rightarrow> string \<Rightarrow> string \<Rightarrow> world
     \<Rightarrow> (thrown + user_row) \<times> world" where
  \<comment> \<open>\<open>INSERT INTO users (name, email, password, role) VALUES ($1, $2, $3, $4) RETURNING *\<close>\<close>
  "pg_insert_user e name email password role w =
     (if \<not> db_up e then (Inl ConnectionError, w)
      else
        (let w1 = w\<lparr>users_id_seq := Suc (users_id_seq w)\<rparr>
         in if too_long 100 name then (Inl (ValueTooLong ''name''), w1)
            else if too_long 255 email then (Inl (ValueTooLong ''email''), w1)
            else if too_long 255 (Some password) then (Inl (ValueTooLong ''password''), w1)
            else if too_long 50 (Some role) then (Inl (ValueTooLong ''role''), w1)
            else (case email of
                    None \<Rightarrow> (Inl (NotNullViolation ''email''), w1)
                  | Some em \<Rightarrow>
                      if users_id_seq w \<in> set (map u_id (users w))
                      then (Inl (UniqueViolation ''users_pkey''), w1)
                      else if em \<in> set (map u_email (users w))
                      then (Inl (UniqueViolation ''users_email_key''), w1)
                      else
                        (let row = \<lparr>u_id = users_id_seq w, u_name = name, u_email = em,
                                      u_password = password, u_role = Some role,
                                      u_created_at = now e\<rparr>
                         in (Inr row, w1\<lparr>users := users w1 @ [row]\<rparr>)))))"

section \<open>Deleting assets\<close>

definition delete_returning ::
  "(asset_row \<Rightarrow> bool) \<Rightarrow> asset_row list \<Rightarrow> asset_row list \<times> asset_row list" where
  \<comment> \<open>\<open>DELETE FROM assets WHERE p RETURNING *\<close>: the removed rows and the rows left\<close>
  "delete_returning p rows = (filter p rows, filter (\<lambda>r. \<not> p r) rows)"

definition owns :: "string \<Rightarrow> nat \<Rightarrow> asset_row \<Rightarrow> bool" where
  \<comment> \<open>\<open>filename = $1 AND uploader_id = $2\<close>; a \<open>NULL\<close> owner matches nobody\<close>
  "owns filename userId r = (a_filename r = filename \<and> a_uploader_id r = Some userId)"

definition delete_asset :: "env \<Rightarrow> credential \<Rightarrow> string \<Rightarrow> world \<Rightarrow> response \<times> world" where
  \<comment> \<open>routes/assets.js, \<open>router.delete("/:filename")\<close>\<close>
  "delete_asset e c filename w =
     (case authenticateToken c of
        Inl r \<Rightarrow> (r, w)
      | Inr u \<Rightarrow>
          if \<not> db_up e then (Json 500 (Message ''Error deleting file''), w)
          else
            (case delete_returning (owns filename (id_of u)) (assets w) of
               (deleted, rest) \<Rightarrow>
                 (case deleted of
                    [] \<Rightarrow> (Json 404 (Message ''File not found or not owned by user''),
                           w\<lparr>assets := rest\<rparr>)
                  | deletedFile # _ \<Rightarrow>
                      (let key = at_index (split ''.amazonaws.com/'' (a_filepath deletedFile)) 1
                       in case s3_send_delete e key (w\<lparr>assets := rest\<rparr>) of
                            (Some err, w2) \<Rightarrow> (Json 500 (Message ''Error deleting file''), w2)
                          | (None, w2) \<Rightarrow>
                              (Json 200 (Message ''File deleted successfully from S3''), w2)))))"

definition admin_delete_asset ::
  "env \<Rightarrow> credential \<Rightarrow> string \<Rightarrow> world \<Rightarrow> response \<times> world" where
  \<comment> \<open>routes/admin.js, \<open>router.delete("/assets/:filename")\<close>\<close>
  "admin_delete_asset e c filename w =
     (case authenticateToken c of
        Inl r \<Rightarrow> (r, w)
      | Inr u \<Rightarrow>
          (case requireRole [''admin''] u of
             Some r \<Rightarrow> (r, w)
           | None \<Rightarrow>
               if \<not> db_up e then (Json 500 (Message ''Error deleting asset''), w)
               else
                 (case delete_returning (\<lambda>r. a_filename r = filename) (assets w) of
                    (deleted, rest) \<Rightarrow>
                      (case deleted of
                         [] \<Rightarrow> (Json 404 (Message ''Asset not found''), w\<lparr>assets := rest\<rparr>)
                       | r0 # _ \<Rightarrow>
                           (let filepath = a_filepath r0;
                                w1 = w\<lparr>assets := rest\<rparr>;
                                w2 = (if filepath \<noteq> [] \<and> filepath \<in> disk w1
                                      then w1\<lparr>disk := disk w1 - {filepath}\<rparr> else w1)
                            in (Json 200 (MessageAsset ''Asset deleted by admin'' r0), w2))))))"

section \<open>Uploading an asset\<close>

record file_part =
  p_originalname :: string
  p_mimetype :: string
  p_size :: nat

record multer_file =
  f_filename :: string
  f_mimetype :: string
  f_path :: string
  f_size :: nat

text \<open>
  The request of an upload: the outcome of the token check, the file part under the
  field \<open>file\<close> with its declared content type and its length in bytes, and the text
  fields \<open>tags\<close> and \<open>permissions\<close>, each sent at most once.
\<close>

record upload_request =
  up_credential :: credential
  up_file :: "file_part option"
  up_tags :: "string option"
  up_permissions :: "string option"

definition fileFilter :: "file_part \<Rightarrow> multer_error option" where
  "fileFilter file =
     (let allowed = [''image/jpeg'', ''image/png'', ''application/pdf'']
      in if p_mimetype file \<notin> set allowed
         then Some (FileFilterError ''Only JPEG, PNG, and PDF files are allowed'')
         else None)"

definition fileSize :: nat where
  "fileSize = 5 * 1024 * 1024"

definition upload_single ::
  "env \<Rightarrow> file_part option \<Rightarrow> world \<Rightarrow> multer_error + multer_file option \<times> world" where
  \<comment> \<open>\<open>upload.single("file")\<close> with disk storage: the filter is asked before anything is
      stored; a part longer than the limit is refused and what was written of it is
      removed again; an accepted part is left at \<open>uploadDir/filename\<close>\<close>
  "upload_single e part w =
     (case part of
        None \<Rightarrow> Inr (None, w)
      | Some file \<Rightarrow>
          (case fileFilter file of
             Some err \<Rightarrow> Inl err
           | None \<Rightarrow>
               if fileSize < p_size file \<or> (p_size file = fileSize \<and> refuses_at_limit e)
               then Inl LIMIT_FILE_SIZE
               else
                 (let filename = dec (now_staging e) @ ''-'' @ p_originalname file;
                      path = upload_dir e @ ''/'' @ filename
                  in Inr (Some \<lparr>f_filename = filename, f_mimetype = p_mimetype file,
                                  f_path = path, f_size = p_size file\<rparr>,
                          w\<lparr>disk := insert path (disk w)\<rparr>))))"

definition parse_tags :: "string option \<Rightarrow> json" where
  \<comment> \<open>the \<open>tags\<close> variable after lines 55 to 62; \<open>null\<close> is \<open>JNull\<close>; an absent or empty
      field is falsy\<close>
  "parse_tags field =
     (case field of
        None \<Rightarrow> JNull
      | Some s \<Rightarrow>
          if s = [] then JNull
          else (case JSON_parse s of
                  Some v \<Rightarrow> v
                | None \<Rightarrow>
                    JArray (map (\<lambda>t. JString (units t))
                      (filter (\<lambda>t. t \<noteq> []) (map trim (split '','' s))))))"

definition parse_permissions :: "string option \<Rightarrow> json" where
  "parse_permissions field =
     (let permissions = JObject [(units ''public'', JBool False)]
      in case field of
           None \<Rightarrow> permissions
         | Some s \<Rightarrow>
             if s = [] then permissions
             else (case JSON_parse s of
                     Some v \<Rightarrow> v
                   | None \<Rightarrow>
                       if s = ''public'' then JObject [(units ''public'', JBool True)]
                       else permissions))"

definition property_public :: "json \<Rightarrow> thrown + json option" where
  \<comment> \<open>\<open>permissions.public\<close>: a \<open>TypeError\<close> on \<open>null\<close>, \<open>undefined\<close> (here \<open>None\<close>) where
      the value has no such property\<close>
  "property_public v =
     (case v of
        JNull \<Rightarrow> Inl (TypeError ''Cannot read properties of null'')
      | JObject ms \<Rightarrow> Inr (obj_get ms (units ''public''))
      | _ \<Rightarrow> Inr None)"

definition unlinkSync :: "string \<Rightarrow> world \<Rightarrow> thrown + world" where
  "unlinkSync path w =
     (if path \<in> disk w then Inr (w\<lparr>disk := disk w - {path}\<rparr>) else Inl (ENOENT path))"

definition insert_uploaded ::
  "env \<Rightarrow> identity \<Rightarrow> multer_file \<Rightarrow> string \<Rightarrow> json \<Rightarrow> json \<Rightarrow> world
     \<Rightarrow> thrown + asset_row \<times> world" where
  \<comment> \<open>\<open>INSERT INTO assets (filename, filepath, mimetype, uploader_id, size, tags,
      permissions) VALUES ($1, ..., $7) RETURNING *\<close>: no value is given for \<open>id\<close> and
      the column has no default, so the row is offered with \<open>id\<close> \<open>NULL\<close>\<close>
  "insert_uploaded e user f fileUrl tags permissions w =
     pg_insert_asset e
       \<lparr>a_id = None, a_filename = f_filename f, a_filepath = fileUrl,
        a_uploader_id = Some (id_of user), a_size = Some (int (f_size f)),
        a_mimetype = Some (f_mimetype f),
        a_tags = (if truthy tags then Some tags else None),
        a_permissions = Some permissions, a_created_at = now e\<rparr> w"

definition upload_failed :: "thrown \<Rightarrow> response" where
  \<comment> \<open>the \<open>catch\<close> of the upload route: \<open>error.message || "Error uploading file"\<close>\<close>
  "upload_failed err = Json 500 (ThrownMessage err ''Error uploading file'')"

definition upload_handler ::
  "env \<Rightarrow> identity \<Rightarrow> multer_file option \<Rightarrow> string option \<Rightarrow> string option \<Rightarrow> world
     \<Rightarrow> response \<times> world" where
  \<comment> \<open>the body of \<open>router.post("/upload")\<close>; every throw ends in the \<open>catch\<close>\<close>
  "upload_handler e user file tagsField permissionsField w =
     (case file of
        None \<Rightarrow> (upload_failed (TypeError ''Cannot destructure property of req.file''), w)
      | Some f \<Rightarrow>
          (let tags = parse_tags tagsField;
               permissions = parse_permissions permissionsField;
               s3Key = ''uploads/'' @ dec (now e) @ ''-'' @ f_filename f
           in case property_public permissions of
                Inl err \<Rightarrow> (upload_failed err, w)
              | Inr pub \<Rightarrow>
                  (let acl = (if (case pub of None \<Rightarrow> False | Some v \<Rightarrow> truthy v)
                              then ''public-read'' else ''private'')
                   in case s3_upload_done e s3Key (f_mimetype f) acl w of
                        (Some err, w1) \<Rightarrow> (upload_failed err, w1)
                      | (None, w1) \<Rightarrow>
                          (let fileUrl = ''https://'' @ tmpl (aws_s3_bucket e) @ ''.s3.''
                                 @ tmpl (aws_region e) @ ''.amazonaws.com/'' @ s3Key
                           in case unlinkSync (f_path f) w1 of
                                Inl err \<Rightarrow> (upload_failed err, w1)
                              | Inr w2 \<Rightarrow>
                                  (case insert_uploaded e user f fileUrl tags permissions w2 of
                                     Inl err \<Rightarrow> (upload_failed err, w2)
                                   | Inr (row, w3) \<Rightarrow>
                                       (Json 200
                                          (MessageAsset ''File uploaded successfully to S3'' row),
                                        w3))))))"

definition upload_asset :: "env \<Rightarrow> upload_request \<Rightarrow> world \<Rightarrow> response \<times> world" where
  \<comment> \<open>\<open>router.post("/upload", authenticateToken, upload.single("file"), handler)\<close>; an error
      of the upload middleware goes to \<open>next(err)\<close> and the handler is not run\<close>
  "upload_asset e req w =
     (case authenticateToken (up_credential req) of
        Inl r \<Rightarrow> (r, w)
      | Inr user \<Rightarrow>
          (case upload_single e (up_file req) w of
             Inl err \<Rightarrow> (NextError err, w)
           | Inr (file, w1) \<Rightarrow>
               upload_handler e user file (up_tags req) (up_permissions req) w1))"

section \<open>Registration\<close>

record register_body =
  b_name :: "string option"
  b_email :: "string option"
  b_password :: "string option"
  b_role :: "json option"

definition register :: "env \<Rightarrow> register_body \<Rightarrow> world \<Rightarrow> response \<times> world" where
  \<comment> \<open>routes/auth.js, \<open>router.post("/register")\<close>: only \<open>name\<close>, \<open>email\<close> and \<open>password\<close>
      are read from the body; \<open>bcrypt.hash\<close> throws on a missing password\<close>
  "register e b w =
     (if \<not> db_up e then (Json 500 (Message ''Server error during registration''), w)
      else
        (let userExists = (case b_email b of
                             None \<Rightarrow> []
                           | Some em \<Rightarrow> filter (\<lambda>u. u_email u = em) (users w))
         in if length userExists > 0 then (Json 400 (Message ''User already exists''), w)
            else (case b_password b of
                    None \<Rightarrow> (Json 500 (Message ''Server error during registration''), w)
                  | Some password \<Rightarrow>
                      (let hashedPassword = bcrypt_hash e password
                       in case pg_insert_user e (b_name b) (b_email b) hashedPassword ''user'' w of
                            (Inl err, w1) \<Rightarrow>
                              (Json 500 (Message ''Server error during registration''), w1)
                          | (Inr newUser, w1) \<Rightarrow>
                              (Json 201 (MessageUser ''User registered successfully'' newUser),
                               w1)))))"

section \<open>The visibility statistics\<close>

definition pg_isspace :: "nat \<Rightarrow> bool" where
  "pg_isspace n = (n = 32 \<or> (9 \<le> n \<and> n \<le> 13))"

definition lower_unit :: "nat \<Rightarrow> nat" where
  "lower_unit n = (if 65 \<le> n \<and> n \<le> 90 then n + 32 else n)"

definition boolin :: "jstr \<Rightarrow> bool option" where
  \<comment> \<open>the cast of a text to \<open>boolean\<close>: white space around it is dropped; a prefix of
      \<open>true\<close>, \<open>yes\<close>, \<open>false\<close> or \<open>no\<close>, \<open>on\<close>, \<open>of\<close>, \<open>off\<close>, \<open>1\<close> and \<open>0\<close> are read
      without regard to case; \<open>None\<close> is the error\<close>
  "boolin txt =
     (let t = map lower_unit (rev (dropWhile pg_isspace (rev (dropWhile pg_isspace txt))))
      in if t = [] then None
         else if prefix t (units ''true'') \<or> prefix t (units ''yes'') then Some True
         else if prefix t (units ''false'') \<or> prefix t (units ''no'') then Some False
         else if t = units ''on'' \<or> t = units ''1'' then Some True
         else if t = units ''of'' \<or> t = units ''off'' \<or> t = units ''0'' then Some False
         else None)"

definition public_flag :: "asset_row \<Rightarrow> thrown + bool option" where
  \<comment> \<open>\<open>(permissions ->> 'public')::boolean\<close>: \<open>NULL\<close> (here \<open>None\<close>) for a \<open>NULL\<close> column, a
      value that is no object, a missing key and a JSON \<open>null\<close>\<close>
  "public_flag r =
     (case a_permissions r of
        None \<Rightarrow> Inr None
      | Some (JObject ms) \<Rightarrow>
          (case obj_get ms (units ''public'') of
             None \<Rightarrow> Inr None
           | Some JNull \<Rightarrow> Inr None
           | Some (JBool b) \<Rightarrow> Inr (Some b)
           | Some (JString s) \<Rightarrow>
               (case boolin s of None \<Rightarrow> Inl (InvalidBoolean ''public'') | Some b \<Rightarrow> Inr (Some b))
           | Some (JNumber lx) \<Rightarrow>
               (case boolin (units lx) of
                  None \<Rightarrow> Inl (InvalidBoolean ''public'')
                | Some b \<Rightarrow> Inr (Some b))
           | Some _ \<Rightarrow> Inl (InvalidBoolean ''public''))
      | Some _ \<Rightarrow> Inr None)"

fun public_flags :: "asset_row list \<Rightarrow> thrown + bool option list" where
  "public_flags [] = Inr []"
| "public_flags (r # rs) =
     (case public_flag r of
        Inl err \<Rightarrow> Inl err
      | Inr f \<Rightarrow> (case public_flags rs of Inl err \<Rightarrow> Inl err | Inr fs \<Rightarrow> Inr (f # fs)))"

definition sql_sum :: "bool option list \<Rightarrow> int option" where
  \<comment> \<open>\<open>SUM(flag::int)\<close>: \<open>NULL\<close> inputs are skipped, and the sum of no input is \<open>NULL\<close>\<close>
  "sql_sum fs =
     (case filter (\<lambda>f. f \<noteq> None) fs of
        [] \<Rightarrow> None
      | gs \<Rightarrow> Some (int (length (filter (\<lambda>f. f = Some True) gs))))"

definition or_zero :: "int option \<Rightarrow> int" where
  \<comment> \<open>\<open>x || 0\<close> on a column the driver returns as a decimal string or \<open>null\<close>: a string,
      also \<open>"0"\<close>, is truthy and stays\<close>
  "or_zero x = (case x of None \<Rightarrow> 0 | Some n \<Rightarrow> n)"

definition stats_visibility :: "env \<Rightarrow> credential \<Rightarrow> world \<Rightarrow> response" where
  \<comment> \<open>routes/admin.js, \<open>router.get("/stats/visibility")\<close>\<close>
  "stats_visibility e c w =
     (case authenticateToken c of
        Inl r \<Rightarrow> r
      | Inr u \<Rightarrow>
          (case requireRole [''admin''] u of
             Some r \<Rightarrow> r
           | None \<Rightarrow>
               if \<not> db_up e then Json 500 (Message ''Error fetching visibility stats'')
               else
                 (case public_flags (assets w) of
                    Inl err \<Rightarrow> Json 500 (Message ''Error fetching visibility stats'')
                  | Inr fs \<Rightarrow>
                      (let public_files = sql_sum fs;
                           private_files =
                             (case sql_sum fs of
                                None \<Rightarrow> None
                              | Some n \<Rightarrow> Some (int (length (assets w)) - n))
                       in Json 200 (VisibilityStats (or_zero public_files)
                                      (or_zero private_files))))))"

section \<open>Sample data\<close>

text \<open>
  A running environment, three accounts, a ledger with one private asset of the second
  account and its stored object, and the requests used as concrete instances below.
\<close>

definition sample_hash :: "string \<Rightarrow> string" where
  "sample_hash password = ''$2b$10$N9qo8uLOickgx2ZMRZoMyeIjZAgcfl7p92ldGxad68LJZdL17lhWy''"

definition env_up :: env where
  "env_up = \<lparr>db_up = True, s3_ok = True, refuses_at_limit = True, now_staging = 1700000000000, now = 1700000000007,
              aws_s3_bucket = Some ''assetmanager'', aws_region = Some ''ap-south-1'',
              upload_dir = ''/srv/app/uploads'', bcrypt_hash = sample_hash\<rparr>"

definition env_s3_down :: env where
  "env_s3_down = env_up\<lparr>s3_ok := False\<rparr>"

definition alice :: identity where
  "alice = \<lparr>id_of = 1, role_of = Some ''user''\<rparr>"

definition bob :: identity where
  "bob = \<lparr>id_of = 2, role_of = Some ''user''\<rparr>"

definition admin :: identity where
  "admin = \<lparr>id_of = 3, role_of = Some ''admin''\<rparr>"

definition account :: "nat \<Rightarrow> string \<Rightarrow> string \<Rightarrow> string \<Rightarrow> user_row" where
  "account i name email role =
     \<lparr>u_id = i, u_name = Some name, u_email = email, u_password = sample_hash ''secret'',
      u_role = Some role, u_created_at = 1690000000000\<rparr>"

definition private_flag :: json where
  "private_flag = JObject [(units ''public'', JBool False)]"

definition bobs_asset :: asset_row where
  "bobs_asset =
     \<lparr>a_id = Some ''0b9f6f0e-5a51-4c6e-9d0a-6f1c2f7f3a11'',
      a_filename = ''1699999999000-a.png'',
      a_filepath =
        ''https://assetmanager.s3.ap-south-1.amazonaws.com/uploads/1699999999004-1699999999000-a.png'',
      a_uploader_id = Some 2, a_size = Some 10, a_mimetype = Some ''image/png'',
      a_tags = None, a_permissions = Some private_flag, a_created_at = 1699999999010\<rparr>"

definition bobs_object :: s3_object where
  "bobs_object = \<lparr>o_content_type = ''image/png'', o_acl = ''private''\<rparr>"

definition world_no_assets :: world where
  "world_no_assets =
     \<lparr>users = [account 1 ''Alice'' ''alice@example.com'' ''user'',
               account 2 ''Bob'' ''bob@example.com'' ''user'',
               account 3 ''Root'' ''root@example.com'' ''admin''],
      users_id_seq = 4, assets = [], bucket = Map.empty, s3_sent = [], disk = {}\<rparr>"

definition world_one :: world where
  "world_one =
     world_no_assets\<lparr>assets := [bobs_asset],
       bucket := [''uploads/1699999999004-1699999999000-a.png'' \<mapsto> bobs_object]\<rparr>"

definition world_unflagged :: world where
  \<comment> \<open>the same ledger with \<open>{}\<close> as the asset's permissions: an object with no \<open>public\<close> key,
      the value the upload route hands to its \<open>INSERT\<close> for a request with \<open>permissions={}\<close>\<close>
  "world_unflagged = world_one\<lparr>assets := [bobs_asset\<lparr>a_permissions := Some (JObject [])\<rparr>]\<rparr>"

definition jpeg_upload :: upload_request where
  "jpeg_upload =
     \<lparr>up_credential = Token alice,
      up_file = Some \<lparr>p_originalname = ''a.jpg'', p_mimetype = ''image/jpeg'', p_size = 10\<rparr>,
      up_tags = Some ''a,b,c'', up_permissions = None\<rparr>"

definition text_upload :: upload_request where
  "text_upload =
     jpeg_upload\<lparr>up_file :=
       Some \<lparr>p_originalname = ''a.txt'', p_mimetype = ''text/plain'', p_size = 10\<rparr>\<rparr>"

definition big_upload :: upload_request where
  "big_upload =
     jpeg_upload\<lparr>up_file :=
       Some \<lparr>p_originalname = ''a.jpg'', p_mimetype = ''image/jpeg'',
             p_size = 6 * 1024 * 1024\<rparr>\<rparr>"

definition carol :: register_body where
  "carol = \<lparr>b_name = Some ''Carol'', b_email = Some ''carol@example.com'',
            b_password = Some ''secret'', b_role = Some (JString (units ''admin''))\<rparr>"

section \<open>Evaluation of the sample data\<close>

lemmas sample_defs = env_up_def env_s3_down_def alice_def bob_def admin_def account_def
  private_flag_def bobs_asset_def bobs_object_def world_no_assets_def world_one_def
  world_unflagged_def jpeg_upload_def text_upload_def big_upload_def carol_def sample_hash_def

lemmas delete_defs = delete_asset_def admin_delete_asset_def authenticateToken_def
  requireRole_def delete_returning_def owns_def s3_send_delete_def split_def at_index_def

section \<open>Deleting assets: what the two routes do\<close>

lemma filter_no_match:
  "\<not> (\<exists>r \<in> set rows. p r) \<Longrightarrow> filter p rows = [] \<and> filter (\<lambda>r. \<not> p r) rows = rows"
  by (induction rows) auto

lemma delete_asset_ledger:
  "db_up e \<Longrightarrow>
   assets (snd (delete_asset e (Token u) filename w)) =
     filter (\<lambda>r. \<not> owns filename (id_of u) r) (assets w)"
  by (simp add: delete_asset_def authenticateToken_def delete_returning_def s3_send_delete_def
      Let_def split: list.splits option.splits prod.splits)

text \<open>
  A successful delete by the owner sends one \<open>DeleteObject\<close> for the key cut out of the
  stored locator of the first removed row, and the object is gone from the bucket.
\<close>

lemma delete_asset_issues_delete:
  assumes "fst (delete_asset e c filename w) = Json 200 body"
  shows "\<exists>u r rs b k.
           c = Token u
         \<and> filter (owns filename (id_of u)) (assets w) = r # rs
         \<and> at_index (split ''.amazonaws.com/'' (a_filepath r)) 1 = Some k
         \<and> aws_s3_bucket e = Some b
         \<and> s3_sent (snd (delete_asset e c filename w)) =
             s3_sent w @ [DeleteObject (Some b) (Some k)]
         \<and> bucket (snd (delete_asset e c filename w)) = (bucket w)(k := None)"
  using assms
  by (auto simp add: delete_asset_def authenticateToken_def delete_returning_def
      s3_send_delete_def Let_def
      split: credential.splits list.splits option.splits prod.splits if_splits)

text \<open>
  A successful delete by an administrator answers with the first removed row and
  removes every row of that filename.
\<close>

lemma admin_delete_echoes_row:
  assumes "fst (admin_delete_asset e c filename w) = Json 200 body"
  shows "\<exists>r rs. filter (\<lambda>r. a_filename r = filename) (assets w) = r # rs
         \<and> body = MessageAsset ''Asset deleted by admin'' r
         \<and> assets (snd (admin_delete_asset e c filename w)) =
             filter (\<lambda>r. a_filename r \<noteq> filename) (assets w)"
  using assms
  by (auto simp add: admin_delete_asset_def authenticateToken_def requireRole_def
      delete_returning_def Let_def
      split: credential.splits list.splits option.splits prod.splits if_splits)

text \<open>
  Claim C2 (every successful delete, by the owner or by an administrator, also removes
  the backing object from the object store). The administrator's route does not: it
  looks for the locator on the local disk and sends nothing to the object store.
  Whenever it answers 200, the bucket and the list of commands sent to the store are
  what they were, so the object of the removed row stays behind.
\<close>

theorem admin_delete_leaves_object:
  assumes "fst (admin_delete_asset e c filename w) = Json 200 body"
  shows "bucket (snd (admin_delete_asset e c filename w)) = bucket w
       \<and> s3_sent (snd (admin_delete_asset e c filename w)) = s3_sent w"
  by (simp add: admin_delete_asset_def Let_def
      split: sum.splits option.splits list.splits prod.splits)

theorem admin_delete_leaves_object_witness:
  "fst (admin_delete_asset env_up (Token admin) ''1699999999000-a.png'' world_one) =
     Json 200 (MessageAsset ''Asset deleted by admin'' bobs_asset)
   \<and> assets (snd (admin_delete_asset env_up (Token admin) ''1699999999000-a.png'' world_one)) = []
   \<and> bucket (snd (admin_delete_asset env_up (Token admin) ''1699999999000-a.png'' world_one))
        ''uploads/1699999999004-1699999999000-a.png'' = Some bobs_object
   \<and> s3_sent (snd (admin_delete_asset env_up (Token admin) ''1699999999000-a.png'' world_one)) = []"
proof -
  have ok: "fst (admin_delete_asset env_up (Token admin) ''1699999999000-a.png'' world_one) =
     Json 200 (MessageAsset ''Asset deleted by admin'' bobs_asset)"
    by (simp add: sample_defs delete_defs)
  have gone:
    "assets (snd (admin_delete_asset env_up (Token admin) ''1699999999000-a.png'' world_one)) = []"
    by (simp add: sample_defs delete_defs)
  have before: "bucket world_one ''uploads/1699999999004-1699999999000-a.png'' = Some bobs_object"
    and sent: "s3_sent world_one = []"
    by (simp_all add: world_one_def world_no_assets_def)
  from admin_delete_leaves_object[OF ok] ok gone before sent
  show ?thesis by simp
qed

text \<open>
  Claim C3 (the success response of every delete echoes the deleted asset row). The
  owner's route does not: whenever it answers 200 the body is the message alone. The
  administrator's route does echo the row (\<open>admin_delete_echoes_row\<close>).
\<close>

theorem delete_asset_answers_message_only:
  assumes "fst (delete_asset e c filename w) = Json 200 body"
  shows "body = Message ''File deleted successfully from S3''"
  using assms
  by (auto simp add: delete_asset_def authenticateToken_def delete_returning_def
      s3_send_delete_def Let_def
      split: credential.splits list.splits option.splits prod.splits if_splits)

theorem delete_asset_answers_message_only_witness:
  "assets world_one = [bobs_asset]
   \<and> delete_asset env_up (Token bob) ''1699999999000-a.png'' world_one =
       (Json 200 (Message ''File deleted successfully from S3''),
        world_one\<lparr>assets := [],
          bucket := Map.empty,
          s3_sent := [DeleteObject (Some ''assetmanager'')
                        (Some ''uploads/1699999999004-1699999999000-a.png'')]\<rparr>)"
proof -
  have ok: "fst (delete_asset env_up (Token bob) ''1699999999000-a.png'' world_one) =
        Json 200 (Message ''File deleted successfully from S3'')"
    by (simp add: sample_defs delete_defs)
  have w: "snd (delete_asset env_up (Token bob) ''1699999999000-a.png'' world_one) =
        world_one\<lparr>assets := [],
          bucket := Map.empty,
          s3_sent := [DeleteObject (Some ''assetmanager'')
                        (Some ''uploads/1699999999004-1699999999000-a.png'')]\<rparr>"
    by (simp add: sample_defs delete_defs)
  have a: "assets world_one = [bobs_asset]" by (simp add: world_one_def)
  from delete_asset_answers_message_only[OF ok] ok w a
  show ?thesis by (simp add: prod_eq_iff)
qed

text \<open>
  Claim C7 (a delete by a user who owns no row of that filename fails with NotFound, not
  Forbidden, ownership being enforced by the scope of the one conditional removal). With
  the database reachable and a verified token: when no row has both the filename and the
  requester as uploader, the route answers 404 and the world is unchanged, whoever else
  owns a row of that name; and a delete repeated after any first delete answers 404,
  whatever the first one answered.
\<close>

theorem delete_asset_not_found:
  assumes "db_up e" and "db_up e'"
  shows "(\<not> (\<exists>r \<in> set (assets w). owns filename (id_of u) r) \<longrightarrow>
           delete_asset e (Token u) filename w =
             (Json 404 (Message ''File not found or not owned by user''), w))
       \<and> fst (delete_asset e' (Token u) filename (snd (delete_asset e (Token u) filename w))) =
             Json 404 (Message ''File not found or not owned by user'')"
proof (intro conjI impI)
  assume none: "\<not> (\<exists>r \<in> set (assets w). owns filename (id_of u) r)"
  from filter_no_match[OF none] assms(1)
  show "delete_asset e (Token u) filename w =
             (Json 404 (Message ''File not found or not owned by user''), w)"
    by (simp add: delete_asset_def authenticateToken_def delete_returning_def)
next
  let ?w1 = "snd (delete_asset e (Token u) filename w)"
  have "filter (owns filename (id_of u)) (assets ?w1) = []"
    by (simp add: delete_asset_ledger[OF assms(1)] filter_empty_conv)
  then show "fst (delete_asset e' (Token u) filename ?w1) =
             Json 404 (Message ''File not found or not owned by user'')"
    using assms(2)
    by (simp add: delete_asset_def[of e'] authenticateToken_def delete_returning_def)
qed

theorem delete_asset_not_found_witness:
  "db_up env_up
   \<and> \<not> (\<exists>r \<in> set (assets world_one). owns ''1699999999000-a.png'' (id_of alice) r)
   \<and> delete_asset env_up (Token alice) ''1699999999000-a.png'' world_one =
        (Json 404 (Message ''File not found or not owned by user''), world_one)
   \<and> fst (delete_asset env_up (Token bob) ''1699999999000-a.png'' world_one) =
        Json 200 (Message ''File deleted successfully from S3'')
   \<and> fst (delete_asset env_up (Token bob) ''1699999999000-a.png''
            (snd (delete_asset env_up (Token bob) ''1699999999000-a.png'' world_one))) =
        Json 404 (Message ''File not found or not owned by user'')"
proof -
  have up: "db_up env_up" by (simp add: env_up_def)
  have none: "\<not> (\<exists>r \<in> set (assets world_one). owns ''1699999999000-a.png'' (id_of alice) r)"
    by (simp add: sample_defs owns_def)
  have first: "fst (delete_asset env_up (Token bob) ''1699999999000-a.png'' world_one) =
        Json 200 (Message ''File deleted successfully from S3'')"
    by (simp add: sample_defs delete_defs)
  from delete_asset_not_found[OF up up, of world_one "''1699999999000-a.png''" alice]
       delete_asset_not_found[OF up up, of world_one "''1699999999000-a.png''" bob]
       up none first
  show ?thesis by blast
qed

section \<open>Registration: what the route stores and returns\<close>

lemmas register_defs = register_def pg_insert_user_def too_long_def

lemma register_created:
  assumes "fst (register e b w) = Json 201 body"
  shows "\<exists>em pw.
           b_email b = Some em \<and> b_password b = Some pw
         \<and> body = MessageUser ''User registered successfully''
                   \<lparr>u_id = users_id_seq w, u_name = b_name b, u_email = em,
                    u_password = bcrypt_hash e pw, u_role = Some ''user'',
                    u_created_at = now e\<rparr>
         \<and> users (snd (register e b w)) =
               users w @ [\<lparr>u_id = users_id_seq w, u_name = b_name b, u_email = em,
                    u_password = bcrypt_hash e pw, u_role = Some ''user'',
                    u_created_at = now e\<rparr>]"
  using assms
  by (auto simp add: register_defs Let_def split: if_splits option.splits)

lemma register_failure_keeps_users:
  assumes "\<forall>body. fst (register e b w) \<noteq> Json 201 body"
  shows "users (snd (register e b w)) = users w"
  using assms
  by (auto simp add: register_defs Let_def split: if_splits option.splits)

lemma register_carol:
  "register env_up carol world_no_assets =
     (Json 201 (MessageUser ''User registered successfully''
        \<lparr>u_id = 4, u_name = Some ''Carol'', u_email = ''carol@example.com'',
         u_password = ''$2b$10$N9qo8uLOickgx2ZMRZoMyeIjZAgcfl7p92ldGxad68LJZdL17lhWy'',
         u_role = Some ''user'', u_created_at = 1700000000007\<rparr>),
      world_no_assets\<lparr>users_id_seq := 5,
        users := users world_no_assets @
          [\<lparr>u_id = 4, u_name = Some ''Carol'', u_email = ''carol@example.com'',
            u_password = ''$2b$10$N9qo8uLOickgx2ZMRZoMyeIjZAgcfl7p92ldGxad68LJZdL17lhWy'',
            u_role = Some ''user'', u_created_at = 1700000000007\<rparr>]\<rparr>)"
  by (simp add: sample_defs register_defs Let_def)

text \<open>
  Claim C1 (the response of a successful registration contains the created user without
  the password credential). The route answers with the whole row that
  \<open>INSERT ... RETURNING *\<close> gives back: whenever it answers 201, the body is the stored
  row and its \<open>password\<close> field is the hash of the submitted password.
\<close>

theorem register_response_carries_password:
  assumes "fst (register e b w) = Json 201 body"
  shows "\<exists>row pw. body = MessageUser ''User registered successfully'' row
                 \<and> b_password b = Some pw \<and> u_password row = bcrypt_hash e pw"
  using register_created[OF assms] by auto

theorem register_response_carries_password_witness:
  "fst (register env_up carol world_no_assets) =
     Json 201 (MessageUser ''User registered successfully''
        \<lparr>u_id = 4, u_name = Some ''Carol'', u_email = ''carol@example.com'',
         u_password = ''$2b$10$N9qo8uLOickgx2ZMRZoMyeIjZAgcfl7p92ldGxad68LJZdL17lhWy'',
         u_role = Some ''user'', u_created_at = 1700000000007\<rparr>)
   \<and> bcrypt_hash env_up ''secret'' = ''$2b$10$N9qo8uLOickgx2ZMRZoMyeIjZAgcfl7p92ldGxad68LJZdL17lhWy''
   \<and> b_password carol = Some ''secret''"
proof -
  have ok: "fst (register env_up carol world_no_assets) =
     Json 201 (MessageUser ''User registered successfully''
        \<lparr>u_id = 4, u_name = Some ''Carol'', u_email = ''carol@example.com'',
         u_password = ''$2b$10$N9qo8uLOickgx2ZMRZoMyeIjZAgcfl7p92ldGxad68LJZdL17lhWy'',
         u_role = Some ''user'', u_created_at = 1700000000007\<rparr>)"
    by (simp add: register_carol)
  from register_response_carries_password[OF ok] ok
  show ?thesis by (auto simp add: carol_def env_up_def sample_hash_def)
qed

text \<open>
  Claim C10 (a user created by registration has role \<open>user\<close>, whatever role the request
  body names). Whenever the route answers 201, exactly one row is added to the users, its
  role is \<open>user\<close>, and a \<open>role\<close> field of the body changes nothing in the answer or in
  the world left.
\<close>

theorem register_assigns_role_user:
  assumes "fst (register e b w) = Json 201 body"
  shows "\<exists>row. body = MessageUser ''User registered successfully'' row
             \<and> users (snd (register e b w)) = users w @ [row]
             \<and> u_role row = Some ''user''
             \<and> register e (b\<lparr>b_role := r\<rparr>) w = register e b w"
proof -
  have same: "register e (b\<lparr>b_role := r\<rparr>) w = register e b w"
    by (simp add: register_def Let_def split: option.splits)
  from register_created[OF assms] same show ?thesis by auto
qed

theorem register_assigns_role_user_witness:
  "b_role carol = Some (JString (units ''admin''))
   \<and> fst (register env_up carol world_no_assets) =
       Json 201 (MessageUser ''User registered successfully''
        \<lparr>u_id = 4, u_name = Some ''Carol'', u_email = ''carol@example.com'',
         u_password = ''$2b$10$N9qo8uLOickgx2ZMRZoMyeIjZAgcfl7p92ldGxad68LJZdL17lhWy'',
         u_role = Some ''user'', u_created_at = 1700000000007\<rparr>)
   \<and> map u_role (users (snd (register env_up carol world_no_assets))) =
       [Some ''user'', Some ''user'', Some ''admin'', Some ''user'']
   \<and> register env_up (carol\<lparr>b_role := None\<rparr>) world_no_assets = register env_up carol world_no_assets"
proof -
  have ok: "fst (register env_up carol world_no_assets) =
     Json 201 (MessageUser ''User registered successfully''
        \<lparr>u_id = 4, u_name = Some ''Carol'', u_email = ''carol@example.com'',
         u_password = ''$2b$10$N9qo8uLOickgx2ZMRZoMyeIjZAgcfl7p92ldGxad68LJZdL17lhWy'',
         u_role = Some ''user'', u_created_at = 1700000000007\<rparr>)"
    by (simp add: register_carol)
  have roles: "map u_role (users world_no_assets) = [Some ''user'', Some ''user'', Some ''admin'']"
    by (simp add: world_no_assets_def account_def)
  have r: "b_role carol = Some (JString (units ''admin''))" by (simp add: carol_def)
  from register_assigns_role_user[OF ok, of None] ok roles r
  show ?thesis by auto
qed

section \<open>Uploading: validation, transfer and the ledger row\<close>

lemmas upload_defs = upload_asset_def upload_single_def fileFilter_def fileSize_def
  upload_handler_def upload_failed_def insert_uploaded_def pg_insert_asset_def too_long_def
  s3_upload_done_def unlinkSync_def property_public_def parse_permissions_def
  authenticateToken_def tmpl_def dec.simps

lemma property_public_defined:
  "p \<noteq> JNull \<Longrightarrow> \<exists>pub. property_public p = Inr pub"
  by (cases p) (simp_all add: property_public_def)

lemma upload_single_accepts:
  assumes "fileFilter file = None" and "p_size file < fileSize"
  shows "upload_single e (Some file) w =
           Inr (Some \<lparr>f_filename = dec (now_staging e) @ ''-'' @ p_originalname file,
                      f_mimetype = p_mimetype file,
                      f_path = upload_dir e @ ''/'' @ dec (now_staging e) @ ''-'' @ p_originalname file,
                      f_size = p_size file\<rparr>,
                w\<lparr>disk := insert (upload_dir e @ ''/'' @ dec (now_staging e) @ ''-'' @ p_originalname file)
                              (disk w)\<rparr>)"
  using assms by (simp add: upload_single_def Let_def)

lemma upload_handler_transfer_fails:
  assumes "property_public (parse_permissions pf) = Inr pub"
    and "\<not> s3_ok e \<or> aws_s3_bucket e = None"
  shows "fst (upload_handler e u (Some f) tf pf w) = upload_failed S3Failure
       \<and> assets (snd (upload_handler e u (Some f) tf pf w)) = assets w
       \<and> bucket (snd (upload_handler e u (Some f) tf pf w)) = bucket w
       \<and> disk (snd (upload_handler e u (Some f) tf pf w)) = disk w"
proof (cases "aws_s3_bucket e")
  case None
  then show ?thesis
    using assms(1) by (simp add: upload_handler_def s3_upload_done_def Let_def)
next
  case (Some b)
  with assms(2) have "\<not> s3_ok e" by simp
  then show ?thesis
    using assms(1) Some by (simp add: upload_handler_def s3_upload_done_def Let_def)
qed

lemma allowed_mimetype_short:
  "fileFilter file = None \<Longrightarrow> length (p_mimetype file) \<le> 100"
  by (auto simp add: fileFilter_def split: if_splits)

lemma upload_handler_insert_refused:
  assumes "property_public (parse_permissions pf) = Inr pub"
    and "s3_ok e" and "aws_s3_bucket e = Some b" and "db_up e"
    and "f_path f \<in> disk w"
    and "length (f_filename f) \<le> 255" and "length (f_mimetype f) \<le> 100"
  shows "fst (upload_handler e u (Some f) tf pf w) = upload_failed (NotNullViolation ''id'')
       \<and> assets (snd (upload_handler e u (Some f) tf pf w)) = assets w
       \<and> bucket (snd (upload_handler e u (Some f) tf pf w))
            (''uploads/'' @ dec (now e) @ ''-'' @ f_filename f) \<noteq> None
       \<and> disk (snd (upload_handler e u (Some f) tf pf w)) = disk w - {f_path f}"
  using assms
  by (simp add: upload_handler_def s3_upload_done_def unlinkSync_def insert_uploaded_def
      pg_insert_asset_def too_long_def Let_def)

lemma jpeg_upload_accepted:
  "up_credential jpeg_upload = Token alice"
  "up_file jpeg_upload =
     Some \<lparr>p_originalname = ''a.jpg'', p_mimetype = ''image/jpeg'', p_size = 10\<rparr>"
  "fileFilter \<lparr>p_originalname = ''a.jpg'', p_mimetype = ''image/jpeg'', p_size = 10\<rparr> = None"
  "p_size \<lparr>p_originalname = ''a.jpg'', p_mimetype = ''image/jpeg'', p_size = 10\<rparr> < fileSize"
  "parse_permissions (up_permissions jpeg_upload) \<noteq> JNull"
  by (simp_all add: jpeg_upload_def fileFilter_def fileSize_def parse_permissions_def)

text \<open>
  No upload adds a row to the ledger, and none answers 200.
\<close>

lemma upload_handler_never_inserts:
  "assets (snd (upload_handler e u fl tf pf w)) = assets w
   \<and> fst (upload_handler e u fl tf pf w) \<noteq> Json 200 body"
proof (cases fl)
  case None
  then show ?thesis by (simp add: upload_handler_def upload_failed_def)
next
  case (Some f)
  show ?thesis
  proof (cases "property_public (parse_permissions pf)")
    case (Inl err)
    then show ?thesis using Some by (simp add: upload_handler_def upload_failed_def Let_def)
  next
    case (Inr pub)
    then show ?thesis using Some
      by (simp add: upload_handler_def upload_failed_def Let_def s3_upload_done_def
          unlinkSync_def insert_uploaded_def pg_insert_asset_def
          split: option.splits)
  qed
qed

lemma upload_never_inserts:
  "assets (snd (upload_asset e req w)) = assets w
   \<and> fst (upload_asset e req w) \<noteq> Json 200 body"
proof (cases "authenticateToken (up_credential req)")
  case (Inl r)
  then show ?thesis
    by (auto simp add: upload_asset_def authenticateToken_def split: credential.splits)
next
  case (Inr user)
  show ?thesis
  proof (cases "upload_single e (up_file req) w")
    case (Inl err)
    then show ?thesis using Inr by (simp add: upload_asset_def)
  next
    case (Inr p)
    obtain fl w1 where p: "p = (fl, w1)" by (cases p)
    have "assets w1 = assets w"
      using Inr p
      by (auto simp add: upload_single_def Let_def split: option.splits if_splits)
    then show ?thesis
      using \<open>authenticateToken (up_credential req) = Inr user\<close> Inr p
        upload_handler_never_inserts[of e user fl "up_tags req" "up_permissions req" w1 body]
      by (simp add: upload_asset_def)
  qed
qed

text \<open>
  Claim C4 (when the transfer to the object store fails, no ledger row is created and the
  staged local copy is discarded). For a verified token and a file part that the upload
  middleware accepts, with permissions that do not parse to \<open>null\<close>: when the transfer
  fails the route answers 500, the ledger and the bucket are unchanged, but the staged
  file is still on the disk, since \<open>fs.unlinkSync\<close> stands after the awaited transfer.
\<close>

theorem upload_transfer_failure_leaves_staged_file:
  assumes "up_credential req = Token u" and "up_file req = Some file"
    and "fileFilter file = None" and "p_size file < fileSize"
    and "parse_permissions (up_permissions req) \<noteq> JNull"
    and "\<not> s3_ok e \<or> aws_s3_bucket e = None"
  shows "fst (upload_asset e req w) = upload_failed S3Failure
       \<and> assets (snd (upload_asset e req w)) = assets w
       \<and> bucket (snd (upload_asset e req w)) = bucket w
       \<and> disk (snd (upload_asset e req w)) =
           insert (upload_dir e @ ''/'' @ dec (now_staging e) @ ''-'' @ p_originalname file)
             (disk w)"
proof -
  from property_public_defined[OF assms(5)]
  obtain pub where pub: "property_public (parse_permissions (up_permissions req)) = Inr pub" ..
  show ?thesis
    using upload_handler_transfer_fails[OF pub assms(6)]
    by (simp add: upload_asset_def authenticateToken_def assms(1,2)
        upload_single_accepts[OF assms(3,4)])
qed

theorem upload_transfer_failure_leaves_staged_file_witness:
  "\<not> s3_ok env_s3_down
   \<and> upload_asset env_s3_down jpeg_upload world_no_assets =
       (upload_failed S3Failure,
        world_no_assets\<lparr>
          s3_sent := [PutObject (Some ''assetmanager'')
                        ''uploads/1700000000007-1700000000000-a.jpg'' ''image/jpeg'' ''private''],
          disk := {''/srv/app/uploads/1700000000000-a.jpg''}\<rparr>)"
proof -
  have down: "\<not> s3_ok env_s3_down \<or> aws_s3_bucket env_s3_down = None"
    by (simp add: env_s3_down_def)
  have ev: "upload_asset env_s3_down jpeg_upload world_no_assets =
       (upload_failed S3Failure,
        world_no_assets\<lparr>
          s3_sent := [PutObject (Some ''assetmanager'')
                        ''uploads/1700000000007-1700000000000-a.jpg'' ''image/jpeg'' ''private''],
          disk := {''/srv/app/uploads/1700000000000-a.jpg''}\<rparr>)"
    by (simp add: sample_defs upload_defs obj_get_def units_def truthy_def Let_def)
  from upload_transfer_failure_leaves_staged_file[OF jpeg_upload_accepted down, of world_no_assets] ev
  show ?thesis by (simp add: env_s3_down_def)
qed

text \<open>
  Claim C5 (the ledger insert assigns every uploaded asset a globally unique identifier).
  The \<open>INSERT\<close> of the upload route names no \<open>id\<close> and the column has no default, so
  the primary key refuses the row: for an accepted file whose transfer succeeded, with the
  database reachable and a filename within the column's length, the route answers 500
  with the \<open>NOT NULL\<close> violation of \<open>id\<close>, the ledger is unchanged, the object is in the
  bucket and the staged file is gone.
\<close>

theorem upload_insert_offers_no_id:
  assumes "up_credential req = Token u" and "up_file req = Some file"
    and "fileFilter file = None" and "p_size file < fileSize"
    and "parse_permissions (up_permissions req) \<noteq> JNull"
    and "s3_ok e" and "aws_s3_bucket e = Some b" and "db_up e"
    and "length (dec (now_staging e) @ ''-'' @ p_originalname file) \<le> 255"
  shows "fst (upload_asset e req w) = upload_failed (NotNullViolation ''id'')
       \<and> assets (snd (upload_asset e req w)) = assets w
       \<and> bucket (snd (upload_asset e req w))
           (''uploads/'' @ dec (now e) @ ''-'' @ dec (now_staging e) @ ''-'' @ p_originalname file)
           \<noteq> None
       \<and> upload_dir e @ ''/'' @ dec (now_staging e) @ ''-'' @ p_originalname file
           \<notin> disk (snd (upload_asset e req w))"
proof -
  from property_public_defined[OF assms(5)]
  obtain pub where pub: "property_public (parse_permissions (up_permissions req)) = Inr pub" ..
  let ?f = "\<lparr>f_filename = dec (now_staging e) @ ''-'' @ p_originalname file,
                      f_mimetype = p_mimetype file,
                      f_path = upload_dir e @ ''/'' @ dec (now_staging e) @ ''-'' @ p_originalname file,
                      f_size = p_size file\<rparr>"
  let ?w1 = "w\<lparr>disk := insert (upload_dir e @ ''/'' @ dec (now_staging e) @ ''-'' @ p_originalname file)
                              (disk w)\<rparr>"
  have staged: "f_path ?f \<in> disk ?w1" by simp
  have len: "length (f_filename ?f) \<le> 255" using assms(9) by simp
  have mt: "length (f_mimetype ?f) \<le> 100" using allowed_mimetype_short[OF assms(3)] by simp
  show ?thesis
    using upload_handler_insert_refused[OF pub assms(6,7,8) staged len mt, of u "up_tags req"]
    by (simp add: upload_asset_def authenticateToken_def assms(1,2)
        upload_single_accepts[OF assms(3,4)])
qed

theorem upload_insert_offers_no_id_witness:
  "upload_asset env_up jpeg_upload world_no_assets =
       (upload_failed (NotNullViolation ''id''),
        world_no_assets\<lparr>
          bucket := [''uploads/1700000000007-1700000000000-a.jpg'' \<mapsto>
                       \<lparr>o_content_type = ''image/jpeg'', o_acl = ''private''\<rparr>],
          s3_sent := [PutObject (Some ''assetmanager'')
                        ''uploads/1700000000007-1700000000000-a.jpg'' ''image/jpeg'' ''private'']\<rparr>)
   \<and> assets world_no_assets = []"
proof -
  have h: "s3_ok env_up" "aws_s3_bucket env_up = Some ''assetmanager''" "db_up env_up"
          "length (dec (now_staging env_up) @ ''-'' @
             p_originalname \<lparr>p_originalname = ''a.jpg'', p_mimetype = ''image/jpeg'', p_size = 10\<rparr>)
           \<le> 255"
    by (simp_all add: env_up_def dec.simps)
  have ev: "upload_asset env_up jpeg_upload world_no_assets =
       (upload_failed (NotNullViolation ''id''),
        world_no_assets\<lparr>
          bucket := [''uploads/1700000000007-1700000000000-a.jpg'' \<mapsto>
                       \<lparr>o_content_type = ''image/jpeg'', o_acl = ''private''\<rparr>],
          s3_sent := [PutObject (Some ''assetmanager'')
                        ''uploads/1700000000007-1700000000000-a.jpg'' ''image/jpeg'' ''private'']\<rparr>)"
    by (simp add: sample_defs upload_defs obj_get_def units_def truthy_def Let_def)
  have a: "assets world_no_assets = []" by (simp add: world_no_assets_def)
  from upload_insert_offers_no_id[OF jpeg_upload_accepted h, of world_no_assets] ev a
  show ?thesis by simp
qed

text \<open>
  Claim C6 (an upload whose declared content type is outside the allow-list, or whose
  size exceeds 5 MiB, fails with a validation error before any transfer and before any
  ledger row). For a verified token, such a file part is refused by the upload
  middleware, with the filter's error for the type and otherwise with the size limit's;
  the handler does not run and the world is unchanged: nothing was sent to the object
  store, the ledger has no new row and no staged file is left.
\<close>

theorem upload_rejects_before_transfer:
  assumes "up_credential req = Token u" and "up_file req = Some file"
    and "p_mimetype file \<notin> {''image/jpeg'', ''image/png'', ''application/pdf''}
         \<or> 5 * 1024 * 1024 < p_size file"
  shows "upload_asset e req w =
           (NextError (if p_mimetype file \<notin> {''image/jpeg'', ''image/png'', ''application/pdf''}
                       then FileFilterError ''Only JPEG, PNG, and PDF files are allowed''
                       else LIMIT_FILE_SIZE), w)"
  using assms
  by (auto simp add: upload_asset_def upload_single_def fileFilter_def fileSize_def
      authenticateToken_def)

theorem upload_rejects_before_transfer_witness:
  "upload_asset env_up text_upload world_one =
     (NextError (FileFilterError ''Only JPEG, PNG, and PDF files are allowed''), world_one)
   \<and> upload_asset env_up big_upload world_one = (NextError LIMIT_FILE_SIZE, world_one)"
proof -
  have t: "up_credential text_upload = Token alice"
          "up_file text_upload =
             Some \<lparr>p_originalname = ''a.txt'', p_mimetype = ''text/plain'', p_size = 10\<rparr>"
    and b: "up_credential big_upload = Token alice"
          "up_file big_upload =
             Some \<lparr>p_originalname = ''a.jpg'', p_mimetype = ''image/jpeg'',
                   p_size = 6 * 1024 * 1024\<rparr>"
    by (simp_all add: text_upload_def big_upload_def jpeg_upload_def)
  from upload_rejects_before_transfer[OF t, of env_up world_one]
       upload_rejects_before_transfer[OF b, of env_up world_one]
  show ?thesis by simp
qed

section \<open>The tags field\<close>

lemmas json_defs = JSON_parse_def lex_step_def idle_step_def num_next_def num_final_def is_digit_def
  hex_val_def escape_unit_def parse_step_def begin_value_def read_key_def complete_def

lemma split_from_single:
  "c \<notin> set acc \<Longrightarrow> p \<in> set (split_from [c] acc s) \<Longrightarrow> c \<notin> set p"
proof (induction s arbitrary: acc)
  case Nil
  then show ?case by simp
next
  case (Cons x xs)
  show ?case
  proof (cases "x = c")
    case True
    with Cons.prems have "p = rev acc \<or> p \<in> set (split_from [c] [] xs)" by simp
    then show ?thesis
    proof
      assume "p = rev acc"
      with Cons.prems(1) show ?thesis by simp
    next
      assume "p \<in> set (split_from [c] [] xs)"
      with Cons.IH[of "[]"] show ?thesis by simp
    qed
  next
    case False
    with Cons.prems have "p \<in> set (split_from [c] (x # acc) xs)" by simp
    moreover from False Cons.prems(1) have "c \<notin> set (x # acc)" by auto
    ultimately show ?thesis using Cons.IH[of "x # acc"] by blast
  qed
qed

lemma split_comma_pieces: "\<forall>p \<in> set (split '','' s). CHR '','' \<notin> set p"
  using split_from_single[of "CHR '',''" "[]" _ s] by (simp add: split_def)

lemma set_trim: "set (trim t) \<subseteq> set t"
  by (auto simp add: trim_def dest!: set_dropWhileD)

lemma last_dropWhile_nonempty:
  "dropWhile P xs \<noteq> [] \<Longrightarrow> last (dropWhile P xs) = last xs"
  by (induction xs) (auto split: if_splits)

lemma trim_ends:
  assumes "trim t \<noteq> []"
  shows "\<not> js_ws (hd (trim t)) \<and> \<not> js_ws (last (trim t))"
proof -
  let ?ys = "dropWhile js_ws t"
  let ?zs = "dropWhile js_ws (rev ?ys)"
  from assms have zs: "?zs \<noteq> []" by (simp add: trim_def)
  have ys: "?ys \<noteq> []"
  proof
    assume e: "?ys = []"
    have "?zs = []" unfolding e by simp
    with zs show False by simp
  qed
  have "last (trim t) = hd ?zs" using zs by (simp add: trim_def last_rev)
  moreover have "\<not> js_ws (hd ?zs)" using zs by (rule hd_dropWhile)
  moreover have "hd (trim t) = last ?zs" using zs by (simp add: trim_def hd_rev)
  moreover have "last ?zs = last (rev ?ys)" using zs by (rule last_dropWhile_nonempty)
  moreover have "last (rev ?ys) = hd ?ys" using ys by (simp add: last_rev)
  moreover have "\<not> js_ws (hd ?ys)" using ys by (rule hd_dropWhile)
  ultimately show ?thesis by simp
qed

lemma trim_idem: "trim (trim t) = trim t"
proof (cases "trim t = []")
  case True
  have "trim [] = []" by (simp add: trim_def)
  with True show ?thesis by simp
next
  case False
  from trim_ends[OF False] have h: "\<not> js_ws (hd (trim t))" and l: "\<not> js_ws (last (trim t))"
    by simp_all
  from False h have a: "dropWhile js_ws (trim t) = trim t"
    by (simp add: dropWhile_eq_self_iff)
  from False l have b: "dropWhile js_ws (rev (trim t)) = rev (trim t)"
    by (simp add: dropWhile_eq_self_iff hd_rev)
  show ?thesis
    unfolding trim_def[of "trim t"] a b by simp
qed

lemma tag_tokens_trimmed:
  "\<forall>t \<in> set (filter (\<lambda>t. t \<noteq> []) (map trim (split '','' s))).
     t \<noteq> [] \<and> trim t = t \<and> CHR '','' \<notin> set t"
proof
  fix t assume "t \<in> set (filter (\<lambda>t. t \<noteq> []) (map trim (split '','' s)))"
  then obtain p where p: "p \<in> set (split '','' s)" and t: "t = trim p" and ne: "t \<noteq> []"
    by auto
  from split_comma_pieces p have "CHR '','' \<notin> set p" by blast
  with set_trim[of p] t have "CHR '','' \<notin> set t" by blast
  moreover have "trim t = t" using t trim_idem by simp
  ultimately show "t \<noteq> [] \<and> trim t = t \<and> CHR '','' \<notin> set t" using ne by simp
qed

text \<open>
  Claim C8 (the tags field is accepted as a JSON array or, when JSON parsing fails, split
  on commas into trimmed non-empty tokens; no other shape is accepted). As stated the
  claim fails: the route takes whatever \<open>JSON.parse\<close> returns, so the texts \<open>7\<close> and
  \<open>true\<close> give a number and a boolean, and the upload goes on to the transfer with them
  exactly as it does with a list of tags.
\<close>

theorem parse_tags_non_array_counterexample:
  "parse_tags (Some ''7'') = JNumber ''7''
   \<and> parse_tags (Some ''true'') = JBool True
   \<and> upload_asset env_up (jpeg_upload\<lparr>up_tags := Some ''7''\<rparr>) world_no_assets =
       upload_asset env_up jpeg_upload world_no_assets
   \<and> s3_sent (snd (upload_asset env_up (jpeg_upload\<lparr>up_tags := Some ''7''\<rparr>) world_no_assets)) =
       [PutObject (Some ''assetmanager'')
          ''uploads/1700000000007-1700000000000-a.jpg'' ''image/jpeg'' ''private'']"
proof -
  have a: "parse_tags (Some ''7'') = JNumber ''7''"
    and b: "parse_tags (Some ''true'') = JBool True"
    by (simp_all add: parse_tags_def json_defs)
  have ev: "upload_asset env_up (jpeg_upload\<lparr>up_tags := Some ''7''\<rparr>) world_no_assets =
       (upload_failed (NotNullViolation ''id''),
        world_no_assets\<lparr>
          bucket := [''uploads/1700000000007-1700000000000-a.jpg'' \<mapsto>
                       \<lparr>o_content_type = ''image/jpeg'', o_acl = ''private''\<rparr>],
          s3_sent := [PutObject (Some ''assetmanager'')
                        ''uploads/1700000000007-1700000000000-a.jpg'' ''image/jpeg'' ''private'']\<rparr>)"
    by (simp add: sample_defs upload_defs obj_get_def units_def truthy_def Let_def)
  have ev2: "upload_asset env_up jpeg_upload world_no_assets =
       (upload_failed (NotNullViolation ''id''),
        world_no_assets\<lparr>
          bucket := [''uploads/1700000000007-1700000000000-a.jpg'' \<mapsto>
                       \<lparr>o_content_type = ''image/jpeg'', o_acl = ''private''\<rparr>],
          s3_sent := [PutObject (Some ''assetmanager'')
                        ''uploads/1700000000007-1700000000000-a.jpg'' ''image/jpeg'' ''private'']\<rparr>)"
    by (simp add: sample_defs upload_defs obj_get_def units_def truthy_def Let_def)
  from a b ev ev2 show ?thesis by simp
qed

text \<open>
  Claim C8 as amended: an absent or empty tags field leaves \<open>tags\<close> \<open>null\<close>; a non-empty
  field that parses as JSON gives the parsed value, whatever its shape; only when JSON
  parsing fails is the field split on commas, each piece trimmed and the empty ones
  dropped, so that every token is non-empty, has no white space at either end and holds
  no comma.
\<close>

theorem parse_tags_takes_any_json:
  "parse_tags None = JNull \<and> parse_tags (Some []) = JNull
   \<and> (s \<noteq> [] \<longrightarrow>
        (\<forall>v. JSON_parse s = Some v \<longrightarrow> parse_tags (Some s) = v)
      \<and> (JSON_parse s = None \<longrightarrow>
           parse_tags (Some s) =
             JArray (map (\<lambda>t. JString (units t))
               (filter (\<lambda>t. t \<noteq> []) (map trim (split '','' s))))
         \<and> (\<forall>t \<in> set (filter (\<lambda>t. t \<noteq> []) (map trim (split '','' s))).
               t \<noteq> [] \<and> trim t = t \<and> CHR '','' \<notin> set t)))"
proof (intro conjI impI allI)
  show "parse_tags None = JNull" by (simp add: parse_tags_def)
  show "parse_tags (Some []) = JNull" by (simp add: parse_tags_def)
next
  fix v assume "s \<noteq> []" and "JSON_parse s = Some v"
  then show "parse_tags (Some s) = v" by (simp add: parse_tags_def)
next
  assume "s \<noteq> []" and "JSON_parse s = None"
  then show "parse_tags (Some s) =
             JArray (map (\<lambda>t. JString (units t))
               (filter (\<lambda>t. t \<noteq> []) (map trim (split '','' s))))"
    by (simp add: parse_tags_def)
next
  show "\<forall>t \<in> set (filter (\<lambda>t. t \<noteq> []) (map trim (split '','' s))).
               t \<noteq> [] \<and> trim t = t \<and> CHR '','' \<notin> set t"
    by (rule tag_tokens_trimmed)
qed

theorem parse_tags_takes_any_json_witness:
  "JSON_parse ''a, b,,c '' = None
   \<and> parse_tags (Some ''a, b,,c '') =
       JArray [JString (units ''a''), JString (units ''b''), JString (units ''c'')]
   \<and> JSON_parse ''[1, 2]'' = Some (JArray [JNumber ''1'', JNumber ''2''])
   \<and> parse_tags (Some ''[1, 2]'') = JArray [JNumber ''1'', JNumber ''2'']"
proof -
  have n: "JSON_parse ''a, b,,c '' = None" by (simp add: json_defs)
  have a: "JSON_parse ''[1, 2]'' = Some (JArray [JNumber ''1'', JNumber ''2''])"
    by (simp add: json_defs)
  have t: "filter (\<lambda>t. t \<noteq> []) (map trim (split '','' ''a, b,,c '')) = [''a'', ''b'', ''c'']"
    by (simp add: split_def trim_def js_ws_def)
  have ne: "''a, b,,c '' \<noteq> []" "''[1, 2]'' \<noteq> []" by simp_all
  from parse_tags_takes_any_json[of "''a, b,,c ''"] ne(1) n
  have "parse_tags (Some ''a, b,,c '') =
          JArray (map (\<lambda>t. JString (units t))
            (filter (\<lambda>t. t \<noteq> []) (map trim (split '','' ''a, b,,c ''))))"
    by blast
  then have p: "parse_tags (Some ''a, b,,c '') =
       JArray [JString (units ''a''), JString (units ''b''), JString (units ''c'')]"
    unfolding t by simp
  from parse_tags_takes_any_json[of "''[1, 2]''"] ne(2) a
  have q: "parse_tags (Some ''[1, 2]'') = JArray [JNumber ''1'', JNumber ''2'']"
    by blast
  from n p a q show ?thesis by blast
qed

section \<open>The visibility statistics: what the route reports\<close>

lemma public_flags_all_null:
  "\<forall>r \<in> set rows. public_flag r = Inr None \<Longrightarrow>
   public_flags rows = Inr (replicate (length rows) None)"
  by (induction rows) simp_all

lemma sql_sum_all_null: "sql_sum (replicate n None) = None"
  by (simp add: sql_sum_def)

lemma public_flags_Inr:
  "public_flags rows = Inr fs \<Longrightarrow>
   length fs = length rows \<and> (\<forall>r \<in> set rows. \<exists>f. public_flag r = Inr f \<and> f \<in> set fs)"
proof (induction rows arbitrary: fs)
  case Nil
  then show ?case by simp
next
  case (Cons r rows)
  then show ?case
    by (auto split: sum.splits)
qed

lemma sql_sum_some:
  "Some b \<in> set fs \<Longrightarrow> \<exists>n. sql_sum fs = Some n"
proof -
  assume "Some b \<in> set fs"
  then have "filter (\<lambda>f. f \<noteq> None) fs \<noteq> []"
    by (auto simp add: filter_empty_conv)
  then show ?thesis
    by (cases "filter (\<lambda>f. f \<noteq> None) fs") (simp_all add: sql_sum_def)
qed

lemma sql_sum_empty: "sql_sum [] = None"
  by (simp add: sql_sum_def)

lemma stats_visibility_total:
  assumes "stats_visibility e c w = Json 200 (VisibilityStats p q)"
    and "assets w = [] \<or> (\<exists>r \<in> set (assets w). public_flag r \<noteq> Inr None)"
  shows "p + q = int (length (assets w))"
proof -
  from assms(1) obtain fs where fs: "public_flags (assets w) = Inr fs"
    and p: "p = or_zero (sql_sum fs)"
    and q: "q = or_zero (case sql_sum fs of None \<Rightarrow> None
                          | Some n \<Rightarrow> Some (int (length (assets w)) - n))"
    by (auto simp add: stats_visibility_def authenticateToken_def requireRole_def Let_def
        split: credential.splits sum.splits option.splits if_splits)
  from assms(2) show ?thesis
  proof
    assume "assets w = []"
    with fs p q show ?thesis by (simp add: sql_sum_empty or_zero_def)
  next
    assume "\<exists>r \<in> set (assets w). public_flag r \<noteq> Inr None"
    then obtain r where r: "r \<in> set (assets w)" "public_flag r \<noteq> Inr None" by blast
    from public_flags_Inr[OF fs] r obtain f where "public_flag r = Inr f" "f \<in> set fs" by blast
    with r(2) obtain b where "Some b \<in> set fs" by (cases f) auto
    from sql_sum_some[OF this] obtain n where "sql_sum fs = Some n" ..
    with p q show ?thesis by (simp add: or_zero_def)
  qed
qed

text \<open>
  With the default permissions the two counts add up to the number of assets.
\<close>

lemma stats_visibility_one_private:
  "stats_visibility env_up (Token admin) world_one = Json 200 (VisibilityStats 0 1)"
  by (auto simp add: stats_visibility_def authenticateToken_def requireRole_def sample_defs
      public_flag_def obj_get_def units_def sql_sum_def or_zero_def)

text \<open>
  Claim C9 (for every state of the ledger, \<open>public_files + private_files\<close> is the number
  of assets). The equation holds when the ledger is empty or some asset carries a
  \<open>public\<close> flag (\<open>stats_visibility_total\<close>). It fails on a ledger that is not empty and
  in which no asset carries one: \<open>SUM\<close> is then \<open>NULL\<close>, so is \<open>COUNT(*) - SUM\<close>, and
  both are reported as 0.
\<close>

theorem stats_visibility_unflagged_zero:
  assumes "authenticateToken c = Inr u" and "requireRole [''admin''] u = None" and "db_up e"
    and "assets w \<noteq> []"
    and "\<forall>r \<in> set (assets w). public_flag r = Inr None"
  shows "stats_visibility e c w = Json 200 (VisibilityStats 0 0)
       \<and> (0::int) + 0 \<noteq> int (length (assets w))"
  using assms
  by (simp add: stats_visibility_def public_flags_all_null sql_sum_all_null or_zero_def)

theorem stats_visibility_unflagged_zero_witness:
  "map a_permissions (assets world_unflagged) = [Some (JObject [])]
   \<and> stats_visibility env_up (Token admin) world_unflagged = Json 200 (VisibilityStats 0 0)
   \<and> length (assets world_unflagged) = 1"
proof -
  have h: "authenticateToken (Token admin) = Inr admin"
          "requireRole [''admin''] admin = None" "db_up env_up"
          "assets world_unflagged \<noteq> []"
          "\<forall>r \<in> set (assets world_unflagged). public_flag r = Inr None"
    by (simp_all add: authenticateToken_def requireRole_def admin_def env_up_def
        world_unflagged_def world_one_def world_no_assets_def public_flag_def obj_get_def)
  have a: "map a_permissions (assets world_unflagged) = [Some (JObject [])]"
    by (simp add: world_unflagged_def world_one_def world_no_assets_def)
  have l: "length (assets world_unflagged) = 1"
    by (simp add: world_unflagged_def world_one_def world_no_assets_def)
  from stats_visibility_unflagged_zero[OF h] a l
  show ?thesis by simp
qed

end
